theory Spec2Isabelle
  imports Main
begin

section \<open>Python values, exceptions and the StateMonad class\<close>

text \<open>
  The example file \<^verbatim>\<open>examples/raiseexceptionexample.py\<close> defines a state-threading
  monad and runs a do-block over it. An exception is a value of type \<open>error\<close>; a Python
  call that may raise returns \<open>error + 'a\<close>, with \<open>Inl\<close> for the raised exception.
  \<open>AttributeError t a\<close> stands for Python's message
  "\<open>t\<close> object has no attribute \<open>a\<close>"; \<open>OtherError\<close> is any other exception, raised
  by user code.
\<close>

datatype error = AttributeError string string | OtherError string

text \<open>
  \<^verbatim>\<open>
  class StateMonad:
      def __init__(self, func):
          self.func = func
  \<close>
  An instance holds one attribute, \<open>func\<close>: a callable from a state to a pair
  \<open>(state, value)\<close>. The state type \<open>'s\<close> and the type \<open>'a\<close> of the plain values are
  left open, as the class leaves them.
\<close>

datatype ('s, 'a) StateMonad = StateMonad (func: "'s \<Rightarrow> error + 's \<times> 'a")

text \<open>
  The objects that reach a suspension point or come back from a continuation in the
  example: a plain integer, or a StateMonad instance.
\<close>

datatype ('s, 'a) pyobj = PyInt int | PyStateMonad "('s, 'a) StateMonad"

text \<open>
  The expression \<^verbatim>\<open>obj.func(n_state)\<close>: the attribute lookup fails on an integer.
\<close>

fun call_func :: "('s, 'a) pyobj \<Rightarrow> 's \<Rightarrow> error + 's \<times> 'a" where
  "call_func (PyInt i) state = Inl (AttributeError ''int'' ''func'')"
| "call_func (PyStateMonad m) state = func m state"

text \<open>
  \<^verbatim>\<open>
      def flat_map(self, func):
          def next(state):
              n_state, value = self.func(state)
              return func(value).func(n_state)

          return StateMonad(func=next)
  \<close>
  The parameter \<^verbatim>\<open>func\<close> is written \<open>f\<close>, the inner function \<^verbatim>\<open>next\<close> is
  \<open>flat_map_next\<close>. An exception raised by \<^verbatim>\<open>self.func\<close>, by \<^verbatim>\<open>func\<close> or by the
  second \<^verbatim>\<open>.func\<close> call leaves \<^verbatim>\<open>next\<close> at once.
\<close>

definition flat_map_next ::
  "('s, 'a) StateMonad \<Rightarrow> ('a \<Rightarrow> error + ('s, 'b) pyobj) \<Rightarrow> 's \<Rightarrow> error + 's \<times> 'b" where
  "flat_map_next self f state =
     (case func self state of
        Inl e \<Rightarrow> Inl e
      | Inr (n_state, val) \<Rightarrow>
          (case f val of
             Inl e \<Rightarrow> Inl e
           | Inr nxt \<Rightarrow> call_func nxt n_state))"

definition flat_map ::
  "('s, 'a) StateMonad \<Rightarrow> ('a \<Rightarrow> error + ('s, 'b) pyobj) \<Rightarrow> ('s, 'b) StateMonad" where
  "flat_map self f = StateMonad (flat_map_next self f)"

text \<open>
  \<^verbatim>\<open>
  def collect_even_numbers(num: int):
      def func(state: set):
          if num % 2 == 0:
              state = state | {num}

          return state, num
      return StateMonad(func)
  \<close>
  Python's \<^verbatim>\<open>%\<close> with the positive divisor 2 and HOL's \<open>mod\<close> on \<open>int\<close> agree: both
  give 0 or 1.
\<close>

definition collect_even_numbers_func :: "int \<Rightarrow> int set \<Rightarrow> error + int set \<times> int" where
  "collect_even_numbers_func num state =
     (let state = (if num mod 2 = 0 then state \<union> {num} else state)
      in Inr (state, num))"

definition collect_even_numbers :: "int \<Rightarrow> (int set, int) StateMonad" where
  "collect_even_numbers num = StateMonad (collect_even_numbers_func num)"

text \<open>
  The same function with the context held by reference. A Python \<^verbatim>\<open>set\<close> is a mutable
  object: the heap is the list of the set objects allocated so far and a reference is an
  index into it. \<^verbatim>\<open>state | {num}\<close> allocates a new set object and leaves its operands
  as they are; the assignment rebinds the local name \<^verbatim>\<open>state\<close> to the new object.
  (The operand \<^verbatim>\<open>{num}\<close> is a temporary that nothing refers to afterwards; it is not
  kept in the heap.)
\<close>

type_synonym ref = nat
type_synonym heap = "int set list"

definition set_or :: "heap \<Rightarrow> ref \<Rightarrow> int set \<Rightarrow> heap \<times> ref" where
  "set_or h r other = (h @ [h ! r \<union> other], length h)"

definition collect_even_numbers_func_ref ::
  "int \<Rightarrow> heap \<times> ref \<Rightarrow> error + (heap \<times> ref) \<times> int" where
  "collect_even_numbers_func_ref num = (\<lambda>(h, state).
     (let (h, state) = (if num mod 2 = 0 then set_or h state {num} else (h, state))
      in Inr ((h, state), num)))"

definition collect_even_numbers_ref :: "int \<Rightarrow> (heap \<times> ref, int) StateMonad" where
  "collect_even_numbers_ref num = StateMonad (collect_even_numbers_func_ref num)"

text \<open>
  \<open>flat_map\<close> once more, with everything a Python callable can read or change beyond
  its arguments made explicit: the world \<open>'w\<close> (for the example, the heap of set
  objects), threaded through every call. \<^verbatim>\<open>self.func\<close> takes the world and the context
  (for the example, a reference) and returns them with the value. The continuation
  \<^verbatim>\<open>func\<close> is an arbitrary callable: it takes the value and the world, may change the
  world, and returns an object. Calling \<open>flat_map\<close> is a step in the world as well: its
  body defines the closure \<^verbatim>\<open>next\<close> and passes it to the constructor, which stores it
  in the new object; it calls nothing else, so it returns the world as it found it.
\<close>

definition flat_map_next_ref ::
  "('w \<times> 'c, 'a) StateMonad \<Rightarrow> ('a \<Rightarrow> 'w \<Rightarrow> error + 'w \<times> ('w \<times> 'c, 'b) pyobj)
     \<Rightarrow> 'w \<times> 'c \<Rightarrow> error + ('w \<times> 'c) \<times> 'b" where
  "flat_map_next_ref self f = (\<lambda>(w, state).
     (case func self (w, state) of
        Inl e \<Rightarrow> Inl e
      | Inr ((w, n_state), val) \<Rightarrow>
          (case f val w of
             Inl e \<Rightarrow> Inl e
           | Inr (w, nxt) \<Rightarrow> call_func nxt (w, n_state))))"

definition flat_map_ref ::
  "('w \<times> 'c, 'a) StateMonad \<Rightarrow> ('a \<Rightarrow> 'w \<Rightarrow> error + 'w \<times> ('w \<times> 'c, 'b) pyobj)
     \<Rightarrow> 'w \<Rightarrow> error + 'w \<times> ('w \<times> 'c, 'b) StateMonad" where
  "flat_map_ref self f w = Inr (w, StateMonad (flat_map_next_ref self f))"

section \<open>The do-block of the example\<close>

text \<open>
  The expression \<^verbatim>\<open>operand.flat_map(rest)\<close>, as the traceback in the example records
  it: on an integer the attribute lookup raises
  \<^verbatim>\<open>AttributeError: 'int' object has no attribute 'flat_map'\<close>.
\<close>

fun call_flat_map ::
  "('s, 'a) pyobj \<Rightarrow> ('a \<Rightarrow> error + ('s, 'b) pyobj) \<Rightarrow> error + ('s, 'b) pyobj" where
  "call_flat_map (PyInt i) rest = Inl (AttributeError ''int'' ''flat_map'')"
| "call_flat_map (PyStateMonad m) rest = Inr (PyStateMonad (flat_map m rest))"

text \<open>
  A generator body, as the do-runner sees it: it stops at a suspension point with an
  operand and waits for the plain value to resume with, or it returns an object, or it
  raises.
\<close>

datatype ('s, 'a) gen =
    Yield "('s, 'a) pyobj" "'a \<Rightarrow> ('s, 'a) gen"
  | Return "('s, 'a) pyobj"
  | Raise error

text \<open>
  Modelled from the spec: the decorator \<^verbatim>\<open>do\<close> and its do-runner, imported from the
  package \<^verbatim>\<open>donotation\<close>, whose source is not part of the example file. Section 4.2 of
  the specification: at each suspension point the runner takes the operand, requires it
  to expose the bind operation (if it does not, the computation fails there with the
  capability violation), builds the continuation that re-enters the body after the
  suspension point and runs the same algorithm on the remainder, and calls the operand's
  bind operation with that continuation. The final \<^verbatim>\<open>return\<close> gives the base case, as
  it is. Section 4.3: calling the decorated function hands the body to the do-runner once
  and returns the composed value, without running it.
\<close>

primrec do_runner :: "('s, 'a) gen \<Rightarrow> error + ('s, 'a) pyobj" where
  "do_runner (Yield operand rest) = call_flat_map operand (\<lambda>v. do_runner (rest v))"
| "do_runner (Return obj) = Inr obj"
| "do_runner (Raise e) = Inl e"

definition do_decorator :: "('i \<Rightarrow> ('s, 'a) gen) \<Rightarrow> 'i \<Rightarrow> error + ('s, 'a) pyobj" where
  "do_decorator body init = do_runner (body init)"

text \<open>
  \<^verbatim>\<open>
  @do()
  def example(init):
      x = yield collect_even_numbers(init+1)
      y = yield x+1
      z = yield collect_even_numbers(y+1)
      return collect_even_numbers(z+1)
  \<close>
\<close>

definition example_body :: "int \<Rightarrow> (int set, int) gen" where
  "example_body init =
     Yield (PyStateMonad (collect_even_numbers (init + 1))) (\<lambda>x.
     Yield (PyInt (x + 1)) (\<lambda>y.
     Yield (PyStateMonad (collect_even_numbers (y + 1))) (\<lambda>z.
     Return (PyStateMonad (collect_even_numbers (z + 1))))))"

definition example :: "int \<Rightarrow> error + (int set, int) pyobj" where
  "example = do_decorator example_body"

text \<open>
  The variant whose output the comments at the end of the file record
  (\<^verbatim>\<open>value=7\<close>, \<^verbatim>\<open>state={4, 6}\<close>): the second suspension point yields
  \<^verbatim>\<open>collect_even_numbers(x+1)\<close> instead of the integer \<^verbatim>\<open>x+1\<close>.
\<close>

definition example_documented_body :: "int \<Rightarrow> (int set, int) gen" where
  "example_documented_body init =
     Yield (PyStateMonad (collect_even_numbers (init + 1))) (\<lambda>x.
     Yield (PyStateMonad (collect_even_numbers (x + 1))) (\<lambda>y.
     Yield (PyStateMonad (collect_even_numbers (y + 1))) (\<lambda>z.
     Return (PyStateMonad (collect_even_numbers (z + 1))))))"

definition example_documented :: "int \<Rightarrow> error + (int set, int) pyobj" where
  "example_documented = do_decorator example_documented_body"

text \<open>
  \<^verbatim>\<open>state, value = example(3).func(state)\<close>: the call that builds the composed value
  may raise; so may the lookup of \<^verbatim>\<open>func\<close> on what it returns, and the run itself.
\<close>

definition run :: "error + ('s, 'a) pyobj \<Rightarrow> 's \<Rightarrow> error + 's \<times> 'a" where
  "run built state = (case built of Inl e \<Rightarrow> Inl e | Inr obj \<Rightarrow> call_func obj state)"

section \<open>Notions used to state the properties\<close>

text \<open>
  \<^verbatim>\<open>lambda x: f(x).flat_map(g)\<close>, the continuation on the right-hand side of the
  associativity law.
\<close>

definition then_flat_map ::
  "('a \<Rightarrow> error + ('s, 'b) pyobj) \<Rightarrow> ('b \<Rightarrow> error + ('s, 'c) pyobj)
     \<Rightarrow> 'a \<Rightarrow> error + ('s, 'c) pyobj" where
  "then_flat_map f g x = (case f x of Inl e \<Rightarrow> Inl e | Inr obj \<Rightarrow> call_flat_map obj g)"

text \<open>
  A do-block with \<open>n\<close> suspension points in a row,
  \<^verbatim>\<open>x1 = yield m; x2 = yield f1(x1); ...; return fn(xn)\<close>; the same chain written by
  hand with nested calls, \<^verbatim>\<open>m.flat_map(lambda x1: f1(x1).flat_map(lambda x2: ...))\<close>;
  and with calls in a row, \<^verbatim>\<open>m.flat_map(f1).flat_map(f2)...\<close>.
\<close>

primrec pipeline ::
  "('s, 'a) StateMonad \<Rightarrow> ('a \<Rightarrow> ('s, 'a) StateMonad) list \<Rightarrow> ('s, 'a) gen" where
  "pipeline m [] = Return (PyStateMonad m)"
| "pipeline m (f # fs) = Yield (PyStateMonad m) (\<lambda>x. pipeline (f x) fs)"

primrec nested ::
  "('s, 'a) StateMonad \<Rightarrow> ('a \<Rightarrow> ('s, 'a) StateMonad) list \<Rightarrow> ('s, 'a) StateMonad" where
  "nested m [] = m"
| "nested m (f # fs) = flat_map m (\<lambda>x. Inr (PyStateMonad (nested (f x) fs)))"

primrec chained ::
  "('s, 'a) StateMonad \<Rightarrow> ('a \<Rightarrow> ('s, 'a) StateMonad) list \<Rightarrow> ('s, 'a) StateMonad" where
  "chained m [] = m"
| "chained m (f # fs) = chained (flat_map m (\<lambda>x. Inr (PyStateMonad (f x)))) fs"

text \<open>
  The suspension point at position \<open>n\<close> of a body, counted from 0, and the state with
  which the run of the composed value arrives there: the operands before it are run in
  order, each from the state its predecessor left. \<open>None\<close> when the run does not get
  that far.
\<close>

primrec suspension_at ::
  "nat \<Rightarrow> ('s, 'a) gen \<Rightarrow> 's \<Rightarrow> (('s, 'a) gen \<times> 's) option" where
  "suspension_at 0 g s = (case g of Yield operand rest \<Rightarrow> Some (g, s) | _ \<Rightarrow> None)"
| "suspension_at (Suc n) g s =
     (case g of
        Yield (PyStateMonad m) rest \<Rightarrow>
          (case func m s of
             Inl e \<Rightarrow> None
           | Inr (n_state, v) \<Rightarrow> suspension_at n (rest v) n_state)
      | _ \<Rightarrow> None)"





text \<open>
  Callables that keep state of their own in a set object, the one at reference 0, beside
  a continuation that keeps none:
  \<^verbatim>\<open>
  seen = set()
  def counting_func(state):
      n = len(seen)
      seen.add(n)
      return state, n
  counting_monad = StateMonad(counting_func)
  collect_cont = lambda k: lambda v: collect_even_numbers(v + k)
  def remembering_cont(v):
      seen.add(len(seen))
      return collect_even_numbers(v + len(seen))
  reading_cont = lambda v: collect_even_numbers(v + len(seen))
  \<close>
  They are inputs for \<open>flat_map\<close>, not part of the example file.
\<close>

definition counting_func :: "heap \<times> ref \<Rightarrow> error + (heap \<times> ref) \<times> int" where
  "counting_func = (\<lambda>(h, state).
     (let n = int (card (h ! 0)); h = h[0 := h ! 0 \<union> {n}]
      in Inr ((h, state), n)))"

definition counting_monad :: "(heap \<times> ref, int) StateMonad" where
  "counting_monad = StateMonad counting_func"


definition remembering_cont ::
  "int \<Rightarrow> heap \<Rightarrow> error + heap \<times> (heap \<times> ref, int) pyobj" where
  "remembering_cont v h =
     (let h = h[0 := h ! 0 \<union> {int (card (h ! 0))}]
      in Inr (h, PyStateMonad (collect_even_numbers_ref (v + int (card (h ! 0))))))"


section \<open>Basic facts\<close>

lemma func_flat_map: "func (flat_map m f) = flat_map_next m f"
  by (simp add: flat_map_def)

lemma func_collect_even_numbers:
  "func (collect_even_numbers num) state =
     Inr (if num mod 2 = 0 then state \<union> {num} else state, num)"
  by (simp add: collect_even_numbers_def collect_even_numbers_func_def)

lemma func_collect_even_numbers_ref:
  "func (collect_even_numbers_ref num) (h, r) =
     Inr (if num mod 2 = 0 then (h @ [h ! r \<union> {num}], length h) else (h, r), num)"
  by (simp add: collect_even_numbers_ref_def collect_even_numbers_func_ref_def set_or_def)

lemma run_Yield_monad:
  "run (do_runner (Yield (PyStateMonad m) rest)) s =
     (case func m s of
        Inl e \<Rightarrow> Inl e
      | Inr (n_state, v) \<Rightarrow> run (do_runner (rest v)) n_state)"
  by (simp add: run_def func_flat_map flat_map_next_def split: sum.splits prod.splits)

lemma run_Yield_int:
  "run (do_runner (Yield (PyInt i) rest)) s = Inl (AttributeError ''int'' ''flat_map'')"
  by (simp add: run_def)

subsection \<open>Chains of suspension points\<close>

lemma do_runner_pipeline: "do_runner (pipeline m fs) = Inr (PyStateMonad (nested m fs))"
  by (induction fs arbitrary: m) simp_all

lemma chained_snoc:
  "chained m (fs @ [g]) = flat_map (chained m fs) (\<lambda>x. Inr (PyStateMonad (g x)))"
  by (induction fs arbitrary: m) simp_all

lemma func_chained_flat_map:
  "func (chained (flat_map m (\<lambda>x. Inr (PyStateMonad (f x)))) fs) s =
     (case func m s of Inl e \<Rightarrow> Inl e | Inr (n, v) \<Rightarrow> func (chained (f v) fs) n)"
proof (induction fs arbitrary: s rule: rev_induct)
  case Nil
  show ?case
    by (simp add: func_flat_map flat_map_next_def split: sum.splits prod.splits)
next
  case (snoc g fs)
  show ?case
    by (simp add: chained_snoc func_flat_map flat_map_next_def [where self = "chained _ _"]
        snoc.IH split: sum.splits prod.splits)
qed

lemma func_nested_chained: "func (nested m fs) s = func (chained m fs) s"
proof (induction fs arbitrary: m s)
  case Nil
  show ?case by simp
next
  case (Cons f fs)
  show ?case
    by (simp add: func_chained_flat_map func_flat_map flat_map_next_def [where self = m]
        Cons.IH split: sum.splits prod.splits)
qed

lemma bind_assoc_law:
  assumes "\<And>x i. f x \<noteq> Inr (PyInt i)"
  shows "func (flat_map (flat_map m f) g) s = func (flat_map m (then_flat_map f g)) s"
proof (cases "func m s")
  case (Inl e)
  then show ?thesis by (simp add: func_flat_map flat_map_next_def)
next
  case (Inr p)
  obtain n v where p: "p = (n, v)" by (cases p)
  show ?thesis
  proof (cases "f v")
    case (Inl e)
    with Inr p show ?thesis
      by (simp add: func_flat_map flat_map_next_def then_flat_map_def)
  next
    case fv: (Inr obj)
    with assms obtain nxt where "obj = PyStateMonad nxt" by (cases obj) auto
    with Inr p fv show ?thesis
      by (simp add: func_flat_map flat_map_next_def then_flat_map_def)
  qed
qed

lemma run_from_suspension:
  "suspension_at n g s = Some (g', s') \<Longrightarrow> run (do_runner g) s = run (do_runner g') s'"
proof (induction n arbitrary: g s)
  case 0
  then show ?case by (auto split: gen.splits)
next
  case (Suc n)
  then show ?case
    by (auto simp add: run_Yield_monad simp del: do_runner.simps
        split: gen.splits pyobj.splits sum.splits)
qed

subsection \<open>Runs on the heap\<close>











lemma flat_map_next_ref_pure:
  "flat_map_next_ref m (\<lambda>v w. case f v of Inl e \<Rightarrow> Inl e | Inr obj \<Rightarrow> Inr (w, obj))
     = flat_map_next m f"
  by (auto simp add: fun_eq_iff flat_map_next_ref_def flat_map_next_def
      split: sum.splits prod.splits)

lemma flat_map_ref_runs_later:
  "flat_map_ref counting_monad remembering_cont [{}, {}]
     = Inr ([{}, {}], StateMonad (flat_map_next_ref counting_monad remembering_cont))
   \<and> func (StateMonad (flat_map_next_ref counting_monad remembering_cont)) ([{}, {}], 1)
     = Inr (([{0, 1}, {}, {2}], 2), 2)"
  by (simp add: flat_map_ref_def flat_map_next_ref_def counting_monad_def counting_func_def
      remembering_cont_def func_collect_even_numbers_ref insert_commute)


section \<open>The bind operation\<close>

text \<open>
  C1. Executing \<open>m.flat_map(f)\<close> on a state \<open>s\<close> runs \<open>m.func\<close> on \<open>s\<close>, which gives
  the updated state \<open>n_state\<close> and a plain value; applies \<open>f\<close> to that value, which
  gives the next StateMonad; runs that monad's \<open>func\<close> on \<open>n_state\<close>; and returns what
  that call returns.
\<close>

theorem flat_map_runs_self_then_continuation:
  assumes "func m s = Inr (n_state, val)"
    and "f val = Inr (PyStateMonad nxt)"
  shows "func (flat_map m f) s = func nxt n_state"
  using assms by (simp add: func_flat_map flat_map_next_def)

theorem flat_map_runs_self_then_continuation_witness:
  "func (collect_even_numbers 4) {} = Inr ({4}, 4)
   \<and> (\<lambda>v. Inr (PyStateMonad (collect_even_numbers (v + 2)))) (4::int)
       = (Inr (PyStateMonad (collect_even_numbers 6)) :: error + (int set, int) pyobj)
   \<and> func (flat_map (collect_even_numbers 4)
             (\<lambda>v. Inr (PyStateMonad (collect_even_numbers (v + 2))))) {}
       = func (collect_even_numbers 6) {4}
   \<and> func (collect_even_numbers 6) {4} = Inr ({4, 6}, 6)"
  using flat_map_runs_self_then_continuation
    [of "collect_even_numbers 4" "{}" "{4}" 4
        "\<lambda>v. Inr (PyStateMonad (collect_even_numbers (v + 2)))" "collect_even_numbers 6"]
  by (simp add: func_collect_even_numbers insert_commute)

text \<open>
  C8. When \<open>m.func\<close> has returned and the continuation raises an exception \<open>e\<close>, or
  the StateMonad it returns raises \<open>e\<close> when it is run, the run of \<open>m.flat_map(f)\<close>
  raises that same \<open>e\<close>: the chain neither catches nor translates it.
\<close>

theorem flat_map_propagates_errors:
  assumes "func m s = Inr (n_state, val)"
    and "f val = Inl e \<or> (\<exists>nxt. f val = Inr (PyStateMonad nxt) \<and> func nxt n_state = Inl e)"
  shows "func (flat_map m f) s = Inl e"
  using assms by (auto simp add: func_flat_map flat_map_next_def)

theorem flat_map_propagates_errors_witness:
  "func (collect_even_numbers 4) {} = Inr ({4}, 4)
   \<and> (\<lambda>v::int. (Inl (OtherError ''boom'') :: error + (int set, int) pyobj)) 4
        = Inl (OtherError ''boom'')
   \<and> func (flat_map (collect_even_numbers 4)
        (\<lambda>v. (Inl (OtherError ''boom'') :: error + (int set, int) pyobj))) {}
        = Inl (OtherError ''boom'')"
  using flat_map_propagates_errors
    [of "collect_even_numbers 4" "{}" "{4}" 4
        "\<lambda>v. (Inl (OtherError ''boom'') :: error + (int set, int) pyobj)" "OtherError ''boom''"]
  by (simp add: func_collect_even_numbers)

section \<open>Associativity\<close>

text \<open>
  C4. For continuations \<open>f\<close> that return StateMonads (or raise), running
  \<open>m.flat_map(f).flat_map(g)\<close> and running \<open>m.flat_map(lambda x: f(x).flat_map(g))\<close> on
  a state give the same result. And a do-block of \<open>n\<close> suspension points in a row gives,
  through the do-runner, the hand-written nesting of \<open>n\<close> \<open>flat_map\<close> calls in source
  order, whose run equals that of the calls written in a row.
\<close>

theorem flat_map_associative:
  "((\<forall>x i. f x \<noteq> Inr (PyInt i)) \<longrightarrow>
      func (flat_map (flat_map m f) g) s = func (flat_map m (then_flat_map f g)) s)
   \<and> do_runner (pipeline m0 fs) = Inr (PyStateMonad (nested m0 fs))
   \<and> func (nested m0 fs) s0 = func (chained m0 fs) s0"
  using bind_assoc_law [of f m g s] do_runner_pipeline [of m0 fs] func_nested_chained [of m0 fs s0]
  by blast

theorem flat_map_associative_witness:
  "(\<forall>x i. (\<lambda>v. Inr (PyStateMonad (collect_even_numbers (v + 2)))) x
        \<noteq> (Inr (PyInt i) :: error + (int set, int) pyobj))
   \<and> func (flat_map (flat_map (collect_even_numbers 4)
              (\<lambda>v. Inr (PyStateMonad (collect_even_numbers (v + 2)))))
              (\<lambda>v. Inr (PyStateMonad (collect_even_numbers (v + 2))))) {}
       = Inr ({4, 6, 8}, 8)
   \<and> func (flat_map (collect_even_numbers 4)
              (then_flat_map (\<lambda>v. Inr (PyStateMonad (collect_even_numbers (v + 2))))
                 (\<lambda>v. Inr (PyStateMonad (collect_even_numbers (v + 2)))))) {}
       = Inr ({4, 6, 8}, 8)
   \<and> run (do_runner (pipeline (collect_even_numbers 4)
              [\<lambda>x. collect_even_numbers (x + 2), \<lambda>x. collect_even_numbers (x + 2)])) {}
       = Inr ({4, 6, 8}, 8)
   \<and> func (chained (collect_even_numbers 4)
              [\<lambda>x. collect_even_numbers (x + 2), \<lambda>x. collect_even_numbers (x + 2)]) {}
       = Inr ({4, 6, 8}, 8)"
  using flat_map_associative
    [of "\<lambda>v. Inr (PyStateMonad (collect_even_numbers (v + 2)))"
        "collect_even_numbers 4"
        "\<lambda>v. Inr (PyStateMonad (collect_even_numbers (v + 2)))" "{}"
        "collect_even_numbers 4"
        "[\<lambda>x. collect_even_numbers (x + 2), \<lambda>x. collect_even_numbers (x + 2)]" "{}"]
  by (simp add: run_def func_flat_map flat_map_next_def func_collect_even_numbers
      insert_commute)

section \<open>The example and the capability violation\<close>

text \<open>
  C2. Calling \<open>example(3)\<close> builds a composed StateMonad without raising; running it
  with \<open>.func(state)\<close> raises the AttributeError of an \<open>int\<close> without \<open>flat_map\<close>, on
  every state, and returns no pair; the exception arrives as it was raised.
\<close>

theorem example_raises_when_run:
  "(\<exists>composed. example 3 = Inr (PyStateMonad composed))
   \<and> (\<forall>state. run (example 3) state = Inl (AttributeError ''int'' ''flat_map''))"
  by (simp add: example_def do_decorator_def example_body_def run_def func_flat_map
      flat_map_next_def func_collect_even_numbers)

text \<open>
  C3. As the claim states it, \<open>example(3).func(set())\<close> would return the value 7 and
  the context \<open>{4, 6}\<close>. The example as written raises at its second suspension point
  instead.
\<close>

theorem example_output_counterexample:
  "run (example 3) {} = Inl (AttributeError ''int'' ''flat_map'')
   \<and> run (example 3) {} \<noteq> Inr ({4, 6}, 7)"
  by (simp add: example_def do_decorator_def example_body_def run_def func_flat_map
      flat_map_next_def func_collect_even_numbers)

text \<open>
  C3, amended. The variant of the example whose second suspension point yields
  \<open>collect_even_numbers(x+1)\<close>, run for the input 3 from the empty set, returns the value
  7 and the context \<open>{4, 6}\<close>.
\<close>

theorem example_documented_output:
  "run (example_documented 3) {} = Inr ({4, 6}, 7)"
  by (simp add: example_documented_def do_decorator_def example_documented_body_def run_def
      func_flat_map flat_map_next_def func_collect_even_numbers insert_commute)

text \<open>
  C5. Let the run of the composed value reach a suspension point, at any position \<open>n\<close>
  of the chain. If its operand is an integer, the run raises the AttributeError of an
  \<open>int\<close> without \<open>flat_map\<close>. If its operand is a StateMonad, the suspension point
  raises nothing of its own: the run is the run of the operand followed by the run of
  the rest of the body, and fails only where one of these does.
\<close>

theorem suspension_point_capability:
  assumes "suspension_at n g s = Some (Yield operand rest, s')"
  shows "case operand of
           PyInt i \<Rightarrow> run (do_runner g) s = Inl (AttributeError ''int'' ''flat_map'')
         | PyStateMonad m \<Rightarrow>
             run (do_runner g) s =
               (case func m s' of
                  Inl e \<Rightarrow> Inl e
                | Inr (n_state, v) \<Rightarrow> run (do_runner (rest v)) n_state)"
  using run_from_suspension [OF assms]
  by (cases operand) (simp_all only: run_Yield_int run_Yield_monad pyobj.case)

theorem suspension_point_capability_witness:
  "suspension_at (Suc 0) (example_body 3) {} =
     Some (Yield (PyInt 5) (\<lambda>y.
             Yield (PyStateMonad (collect_even_numbers (y + 1))) (\<lambda>z.
             Return (PyStateMonad (collect_even_numbers (z + 1))))), {4})
   \<and> run (do_runner (example_body 3)) {} = Inl (AttributeError ''int'' ''flat_map'')"
  using suspension_point_capability
    [of "Suc 0" "example_body 3" "{}" "PyInt 5"
        "\<lambda>y. Yield (PyStateMonad (collect_even_numbers (y + 1))) (\<lambda>z.
             Return (PyStateMonad (collect_even_numbers (z + 1))))" "{4}"]
  by (simp add: example_body_def func_collect_even_numbers)

section \<open>Construction and execution\<close>

text \<open>
  C6. Calling \<open>flat_map\<close> runs nothing: for every receiver and every continuation,
  whatever they would do to the world or raise when invoked, the call raises nothing and
  returns the world as it was, with a new StateMonad. The computation (\<open>m.func\<close>, then
  the continuation, then the \<open>func\<close> of the object it returns) is what \<open>.func\<close> of that
  new StateMonad runs, on the world and the context it is then given.
\<close>

theorem flat_map_defers_execution:
  "\<exists>composed. flat_map_ref m f w = Inr (w, composed)
     \<and> (\<forall>w0 state. func composed (w0, state) =
          (case func m (w0, state) of
             Inl e \<Rightarrow> Inl e
           | Inr ((w1, n_state), v) \<Rightarrow>
               (case f v w1 of
                  Inl e \<Rightarrow> Inl e
                | Inr (w2, nxt) \<Rightarrow> call_func nxt (w2, n_state))))"
  by (simp add: flat_map_ref_def flat_map_next_ref_def)

text \<open>
  C10. \<open>collect_even_numbers(num).func(state)\<close> returns \<open>(state | {num}, num)\<close> when
  \<open>num\<close> is even and \<open>(state, num)\<close> when it is odd; the value is \<open>num\<close>, the returned
  state contains the given one, and on the heap every set object that existed before the
  call, the given one among them, is unchanged: an even \<open>num\<close> is added to a new object.
\<close>

theorem collect_even_numbers_result:
  "func (collect_even_numbers num) state
     = Inr (if num mod 2 = 0 then state \<union> {num} else state, num)
   \<and> (\<exists>state'. func (collect_even_numbers num) state = Inr (state', num) \<and> state \<subseteq> state')
   \<and> (r < length h \<longrightarrow>
        (\<exists>h' r'. func (collect_even_numbers_ref num) (h, r) = Inr ((h', r'), num)
           \<and> take (length h) h' = h \<and> r' < length h'
           \<and> h' ! r' = (if num mod 2 = 0 then h ! r \<union> {num} else h ! r)))"
  by (auto simp add: func_collect_even_numbers func_collect_even_numbers_ref)

theorem collect_even_numbers_result_witness:
  "func (collect_even_numbers 4) {1} = Inr ({1, 4}, 4)
   \<and> (0::nat) < length [{1::int}]
   \<and> func (collect_even_numbers_ref 4) ([{1}], 0) = Inr (([{1}, {1, 4}], 1), 4)
   \<and> func (collect_even_numbers_ref 5) ([{1}], 0) = Inr (([{1}], 0), 5)"
  using collect_even_numbers_result [of 4 "{1}" 0 "[{1}]"]
  by (simp add: func_collect_even_numbers func_collect_even_numbers_ref insert_commute)







end
